theory Spec2Isabelle
  imports Complex_Main
begin

section \<open>Numbers of the pricing engine\<close>

text \<open>
  The engine of \<^verbatim>\<open>backend/services/bond_pricer.py\<close> computes on Python floats and on
  numpy.float64 values. Both are embedded as real numbers with exact arithmetic: binary
  rounding error, overflow and underflow are outside the embedding. What the two kinds do
  differently on a zero divisor is kept: a Python float division raises
  \<^verbatim>\<open>ZeroDivisionError\<close>, a numpy division returns inf or nan with a warning.
  The reals have no such values, so a numpy division by zero inside \<^verbatim>\<open>price_bond\<close>
  ends the embedded run with \<open>NonFinite\<close>: that outcome is not an exception of the
  source, it says that the source goes on with inf or nan in its data. The one numpy
  division of \<^verbatim>\<open>stress_test_bond\<close> feeds a single field, which then holds the value
  \<open>NanOrInf\<close>.
\<close>

datatype fault = ZeroDivisionError | ValueError | TypeError | IndexError | NonFinite

definition bind_res :: "fault + 'a \<Rightarrow> ('a \<Rightarrow> fault + 'b) \<Rightarrow> fault + 'b" where
  "bind_res m f = (case m of Inl e \<Rightarrow> Inl e | Inr v \<Rightarrow> f v)"

text \<open>A dictionary value: a Python int, a Python float or a numpy.float64.\<close>

datatype num = PyInt int | PyFloat real | NpFloat real

fun val :: "num \<Rightarrow> real" where
  "val (PyInt i) = of_int i"
| "val (PyFloat x) = x"
| "val (NpFloat x) = x"

fun is_np :: "num \<Rightarrow> bool" where
  "is_np (NpFloat x) = True"
| "is_np (PyFloat x) = False"
| "is_np (PyInt i) = False"

text \<open>\<^verbatim>\<open>int(x)\<close> on a float truncates towards zero.\<close>

definition py_int :: "real \<Rightarrow> int" where
  "py_int x = (if 0 \<le> x then \<lfloor>x\<rfloor> else \<lceil>x\<rceil>)"

text \<open>
  \<^verbatim>\<open>round(x, ndigits)\<close>: to the nearest multiple of \<open>10 ^ -ndigits\<close>, a tie to the
  even one.
\<close>

definition round_half_even :: "real \<Rightarrow> int" where
  "round_half_even x =
     (let f = \<lfloor>x\<rfloor>; d = x - of_int f
      in if d < 1 / 2 then f
         else if 1 / 2 < d then f + 1
         else if even f then f else f + 1)"

definition py_round :: "real \<Rightarrow> nat \<Rightarrow> real" where
  "py_round x ndigits = of_int (round_half_even (x * 10 ^ ndigits)) / 10 ^ ndigits"

text \<open>Division of two Python floats, and of values of which one is a numpy.float64.\<close>

definition py_div :: "real \<Rightarrow> real \<Rightarrow> fault + real" where
  "py_div a b = (if b = 0 then Inl ZeroDivisionError else Inr (a / b))"

definition np_div :: "real \<Rightarrow> real \<Rightarrow> fault + real" where
  "np_div a b = (if b = 0 then Inl NonFinite else Inr (a / b))"

text \<open>
  \<^verbatim>\<open>b ** e\<close> on Python floats. A zero base with a negative exponent raises
  \<^verbatim>\<open>ZeroDivisionError\<close>. A negative base with a fractional exponent gives a complex
  number; in \<^verbatim>\<open>price_bond\<close> the next operations on it are a division of a float by it
  and \<^verbatim>\<open>round\<close>, which raises \<^verbatim>\<open>TypeError\<close> on a complex argument, so that
  outcome is recorded here.
\<close>

definition py_pow :: "real \<Rightarrow> real \<Rightarrow> fault + real" where
  "py_pow b e =
     (if e = 0 then Inr 1
      else if b = 0 then (if e < 0 then Inl ZeroDivisionError else Inr 0)
      else if 0 < b then Inr (b powr e)
      else if e = of_int \<lfloor>e\<rfloor> then Inr (b powi \<lfloor>e\<rfloor>)
      else Inl TypeError)"

text \<open>Arithmetic on dictionary values, as \<^verbatim>\<open>stress_test_bond\<close> uses it.\<close>

definition num_like :: "num \<Rightarrow> num \<Rightarrow> real \<Rightarrow> num" where
  "num_like a b x = (if is_np a \<or> is_np b then NpFloat x else PyFloat x)"

fun num_sub :: "num \<Rightarrow> num \<Rightarrow> num" where
  "num_sub (PyInt i) (PyInt j) = PyInt (i - j)"
| "num_sub a b = num_like a b (val a - val b)"

fun num_mul :: "num \<Rightarrow> num \<Rightarrow> num" where
  "num_mul (PyInt i) (PyInt j) = PyInt (i * j)"
| "num_mul a b = num_like a b (val a * val b)"

text \<open>
  A quotient of dictionary values. Python floats raise on a zero divisor; with a
  numpy.float64 on either side the quotient is inf or nan, and \<^verbatim>\<open>stress_test_bond\<close>
  goes on with it into the scenario's dictionary.
\<close>

datatype quotient = Quotient num | NanOrInf

definition num_div :: "num \<Rightarrow> num \<Rightarrow> fault + quotient" where
  "num_div a b =
     (if is_np a \<or> is_np b
      then Inr (if val b = 0 then NanOrInf else Quotient (NpFloat (val a / val b)))
      else map_sum id (\<lambda>x. Quotient (PyFloat x)) (py_div (val a) (val b)))"

fun quotient_mul :: "quotient \<Rightarrow> num \<Rightarrow> quotient" where
  "quotient_mul (Quotient a) b = Quotient (num_mul a b)"
| "quotient_mul NanOrInf b = NanOrInf"

fun num_round :: "num \<Rightarrow> nat \<Rightarrow> num" where
  "num_round (PyInt i) ndigits = PyInt i"
| "num_round a ndigits = num_like a a (py_round (val a) ndigits)"

text \<open>
  The rounding of a figure that is computed from rounded prices. A rounded price is an
  exact decimal here and the float nearest to that decimal in the source. A product or
  quotient of such prices that sits exactly on a rounding tie here (2.445 to 2 places)
  therefore sits just above or just below the tie in the source, which rounds it to the
  one or the other neighbour. So \<^verbatim>\<open>round(a, n)\<close> of such a figure is kept with its
  argument, as \<open>Rounded a n\<close>, and \<open>rounds_to\<close> says which values it can have: the
  multiples of \<open>10 ^ -n\<close> that are nearest to \<open>a\<close>. Off a tie there is one, that of
  \<open>py_round\<close>; on a tie there are two. \<open>is_round v x n\<close> says that \<open>v\<close> is
  \<^verbatim>\<open>round(a, n)\<close> for a finite \<open>a\<close> of the value \<open>x\<close>.
\<close>

datatype rounded = Rounded num nat | RoundedNanOrInf

fun quotient_round :: "quotient \<Rightarrow> nat \<Rightarrow> rounded" where
  "quotient_round (Quotient a) ndigits = Rounded a ndigits"
| "quotient_round NanOrInf ndigits = RoundedNanOrInf"

fun rounds_to :: "rounded \<Rightarrow> real \<Rightarrow> bool" where
  "rounds_to (Rounded a n) r =
     (r * 10 ^ n = of_int \<lfloor>r * 10 ^ n\<rfloor> \<and> \<bar>val a * 10 ^ n - r * 10 ^ n\<bar> \<le> 1 / 2)"
| "rounds_to RoundedNanOrInf r = False"

fun is_round :: "rounded \<Rightarrow> real \<Rightarrow> nat \<Rightarrow> bool" where
  "is_round (Rounded a k) x n = (k = n \<and> val a = x)"
| "is_round RoundedNanOrInf x n = False"

section \<open>numpy arrays\<close>

text \<open>
  \<^verbatim>\<open>np.arange(lo, hi)\<close> on ints, \<^verbatim>\<open>np.full(n, v)\<close> (a negative length raises
  \<^verbatim>\<open>ValueError\<close>), \<^verbatim>\<open>a[-1] += v\<close> (an empty array raises \<^verbatim>\<open>IndexError\<close>)
  and the elementwise quotient of two arrays.
\<close>

definition np_arange :: "int \<Rightarrow> int \<Rightarrow> int list" where
  "np_arange lo hi = [lo..hi - 1]"

definition np_full :: "int \<Rightarrow> real \<Rightarrow> fault + real list" where
  "np_full n v = (if n < 0 then Inl ValueError else Inr (replicate (nat n) v))"

definition add_last :: "real list \<Rightarrow> real \<Rightarrow> fault + real list" where
  "add_last xs v =
     (if xs = [] then Inl IndexError
      else Inr (xs[length xs - 1 := xs ! (length xs - 1) + v]))"

definition np_div_arr :: "real list \<Rightarrow> real list \<Rightarrow> fault + real list" where
  "np_div_arr xs ys =
     (if 0 \<in> set ys then Inl NonFinite else Inr (map2 (\<lambda>a b. a / b) xs ys))"

section \<open>price-bond\<close>

record pricing_result =
  price :: num
  macaulay_duration :: num
  modified_duration :: num
  convexity :: num
  dv01 :: num
  current_yield :: num
  price_to_face :: num
  ytm_pct :: num
  coupon_pct :: num

definition price_bond :: "real \<Rightarrow> real \<Rightarrow> real \<Rightarrow> real \<Rightarrow> fault + pricing_result" where
  "price_bond face_value coupon_rate ytm maturity_years =
     (let n_periods = py_int (maturity_years * 2);
          semi_coupon = face_value * coupon_rate / 2;
          semi_ytm = ytm / 2
      in if n_periods = 0 then
           bind_res (py_pow (1 + ytm) maturity_years) (\<lambda>factor.
           bind_res (py_div face_value factor) (\<lambda>p.
           bind_res (py_div maturity_years (1 + ytm)) (\<lambda>md.
           bind_res (py_div (p * maturity_years) (1 + ytm)) (\<lambda>q.
           bind_res (py_div p face_value) (\<lambda>ptf.
           Inr \<lparr>price = PyFloat (py_round p 4),
                macaulay_duration = PyFloat (py_round maturity_years 4),
                modified_duration = PyFloat (py_round md 4),
                convexity = PyFloat 0,
                dv01 = PyFloat (py_round (q / 10000) 4),
                current_yield = PyFloat 0,
                price_to_face = PyFloat (py_round (ptf * 100) 4),
                ytm_pct = PyFloat (py_round (ytm * 100) 4),
                coupon_pct = PyFloat (py_round (coupon_rate * 100) 4)\<rparr>)))))
         else
           let periods = np_arange 1 (n_periods + 1) in
           bind_res (np_full n_periods semi_coupon) (\<lambda>cash_flows0.
           bind_res (add_last cash_flows0 face_value) (\<lambda>cash_flows.
           let discount_factors = map (\<lambda>i. (1 + semi_ytm) ^ nat i) periods in
           bind_res (np_div_arr cash_flows discount_factors) (\<lambda>pv_cash_flows.
           let p = sum_list pv_cash_flows in
           bind_res (np_div (sum_list (map2 (\<lambda>v i. v * of_int i) pv_cash_flows periods)) p) (\<lambda>w.
           let mac_duration = w / 2 in
           bind_res (np_div mac_duration (1 + semi_ytm)) (\<lambda>mod_duration.
           let convexity_sum =
                 sum_list (map2 (\<lambda>v i. v * of_int i * (of_int i + 1)) pv_cash_flows periods) in
           bind_res (np_div convexity_sum (p * (1 + semi_ytm) ^ 2 * 4)) (\<lambda>cvx.
           let dv = mod_duration * p / 10000;
               annual_coupon = face_value * coupon_rate in
           bind_res (if 0 < p
                     then map_sum id (\<lambda>cy. NpFloat (py_round (cy * 100) 4))
                            (np_div annual_coupon p)
                     else Inr (PyInt 0)) (\<lambda>cy.
           bind_res (np_div p face_value) (\<lambda>ptf.
           Inr \<lparr>price = NpFloat (py_round p 4),
                macaulay_duration = NpFloat (py_round mac_duration 4),
                modified_duration = NpFloat (py_round mod_duration 4),
                convexity = NpFloat (py_round cvx 4),
                dv01 = NpFloat (py_round dv 4),
                current_yield = cy,
                price_to_face = NpFloat (py_round (ptf * 100) 4),
                ytm_pct = PyFloat (py_round (ytm * 100) 4),
                coupon_pct = PyFloat (py_round (coupon_rate * 100) 4)\<rparr>)))))))))"

section \<open>stress-test-bond\<close>

record stress_scenario =
  shock_bps :: int
  shocked_ytm :: num
  scenario_price :: num
  pnl_per_bond :: num
  total_pnl :: rounded
  pnl_pct :: rounded

definition shocks :: "int list" where
  "shocks = [-300, -200, -100, -50, 0, 50, 100, 200, 300]"

text \<open>The yield a scenario reprices at: \<^verbatim>\<open>max(0.0001, ytm + shock_bps / 10000)\<close>.\<close>

definition shocked_yield :: "real \<Rightarrow> int \<Rightarrow> real" where
  "shocked_yield ytm shock = max (1 / 10000) (ytm + of_int shock / 10000)"

text \<open>
  The body of the loop over the shocks: one scenario, from the base result. The field
  \<open>scenario_price\<close> is the key \<^verbatim>\<open>"price"\<close> of the scenario's dictionary. The
  quantity is a Python int or float. The prices of the periodic branch are numpy.float64
  and those of the other branch Python floats, and so the division by a base price of zero
  gives nan or inf in the first case and raises \<^verbatim>\<open>ZeroDivisionError\<close> in the second.
  The difference of two rounded prices is a decimal of 4 places and never near a tie, so
  \<open>pnl_per_bond\<close> is rounded as the prices are; \<open>total_pnl\<close> and \<open>pnl_pct\<close> can sit
  on a tie and are kept as \<open>rounded\<close> values.
\<close>

definition stress_scenario_of ::
  "real \<Rightarrow> real \<Rightarrow> real \<Rightarrow> real \<Rightarrow> num \<Rightarrow> pricing_result \<Rightarrow> int \<Rightarrow> fault + stress_scenario" where
  "stress_scenario_of face_value coupon_rate ytm maturity_years quantity base shock =
     (let shocked = shocked_yield ytm shock in
      bind_res (price_bond face_value coupon_rate shocked maturity_years) (\<lambda>shocked_price.
      let pnl = num_sub (price shocked_price) (price base);
          total = num_mul pnl quantity in
      bind_res (num_div pnl (price base)) (\<lambda>ratio.
      Inr \<lparr>shock_bps = shock,
           shocked_ytm = PyFloat (py_round (shocked * 100) 4),
           scenario_price = price shocked_price,
           pnl_per_bond = num_round pnl 4,
           total_pnl = Rounded total 2,
           pnl_pct = quotient_round (quotient_mul ratio (PyInt 100)) 4\<rparr>)))"

text \<open>The loop: it appends one scenario per shock, and an exception ends it.\<close>

fun stress_loop ::
  "real \<Rightarrow> real \<Rightarrow> real \<Rightarrow> real \<Rightarrow> num \<Rightarrow> pricing_result \<Rightarrow> int list \<Rightarrow>
     stress_scenario list \<Rightarrow> fault + stress_scenario list" where
  "stress_loop face_value coupon_rate ytm maturity_years quantity base [] results = Inr results"
| "stress_loop face_value coupon_rate ytm maturity_years quantity base (shock # rest) results =
     bind_res (stress_scenario_of face_value coupon_rate ytm maturity_years quantity base shock)
       (\<lambda>s. stress_loop face_value coupon_rate ytm maturity_years quantity base rest
              (results @ [s]))"

definition stress_test_bond ::
  "real \<Rightarrow> real \<Rightarrow> real \<Rightarrow> real \<Rightarrow> num \<Rightarrow> fault + stress_scenario list" where
  "stress_test_bond face_value coupon_rate ytm maturity_years quantity =
     bind_res (price_bond face_value coupon_rate ytm maturity_years) (\<lambda>base.
     stress_loop face_value coupon_rate ytm maturity_years quantity base shocks [])"

section \<open>The discounted cash flows, as the specification writes them\<close>

text \<open>
  The cash flow of period \<open>i\<close> of \<open>n\<close>: the semi-annual coupon, and the principal in
  the last period. Its present value at the yield \<open>y\<close>, compounded semi-annually, and
  the sum of the present values over the periods \<open>1..n\<close>.
\<close>

definition cash_flow :: "real \<Rightarrow> real \<Rightarrow> nat \<Rightarrow> nat \<Rightarrow> real" where
  "cash_flow fv c n i = fv * c / 2 + (if i = n then fv else 0)"

definition present_value :: "real \<Rightarrow> real \<Rightarrow> real \<Rightarrow> nat \<Rightarrow> nat \<Rightarrow> real" where
  "present_value fv c y n i = cash_flow fv c n i / (1 + y / 2) ^ i"

definition dcf_price :: "real \<Rightarrow> real \<Rightarrow> real \<Rightarrow> nat \<Rightarrow> real" where
  "dcf_price fv c y n = (\<Sum>i = 1..n. present_value fv c y n i)"

text \<open>The result of the periodic branch and of the discount branch, in closed form.\<close>

definition periodic_result :: "real \<Rightarrow> real \<Rightarrow> real \<Rightarrow> nat \<Rightarrow> pricing_result" where
  "periodic_result fv c y n =
     (let p = dcf_price fv c y n;
          mac = (\<Sum>i = 1..n. present_value fv c y n i * real i) / p / 2;
          md = mac / (1 + y / 2);
          cvx = (\<Sum>i = 1..n. present_value fv c y n i * real i * (real i + 1)) /
                  (p * (1 + y / 2) ^ 2 * 4)
      in \<lparr>price = NpFloat (py_round p 4),
          macaulay_duration = NpFloat (py_round mac 4),
          modified_duration = NpFloat (py_round md 4),
          convexity = NpFloat (py_round cvx 4),
          dv01 = NpFloat (py_round (md * p / 10000) 4),
          current_yield =
            (if 0 < p then NpFloat (py_round (fv * c / p * 100) 4) else PyInt 0),
          price_to_face = NpFloat (py_round (p / fv * 100) 4),
          ytm_pct = PyFloat (py_round (y * 100) 4),
          coupon_pct = PyFloat (py_round (c * 100) 4)\<rparr>)"

definition discount_result :: "real \<Rightarrow> real \<Rightarrow> real \<Rightarrow> real \<Rightarrow> pricing_result" where
  "discount_result fv c y m =
     (let p = fv / (1 + y) powr m
      in \<lparr>price = PyFloat (py_round p 4),
          macaulay_duration = PyFloat (py_round m 4),
          modified_duration = PyFloat (py_round (m / (1 + y)) 4),
          convexity = PyFloat 0,
          dv01 = PyFloat (py_round (p * m / (1 + y) / 10000) 4),
          current_yield = PyFloat 0,
          price_to_face = PyFloat (py_round (p / fv * 100) 4),
          ytm_pct = PyFloat (py_round (y * 100) 4),
          coupon_pct = PyFloat (py_round (c * 100) 4)\<rparr>)"

section \<open>Lists of periods\<close>

lemma np_arange_nat: "np_arange 1 (int n + 1) = map int [1..<Suc n]"
  unfolding np_arange_def
  by (induction n) (simp_all add: upto_rec2)

lemma cash_flows_eq:
  assumes "1 \<le> n"
  shows "(replicate n (sc::real))[n - 1 := replicate n sc ! (n - 1) + fv] =
         map (\<lambda>i. sc + (if i = n then fv else 0)) [1..<Suc n]"
  using assms by (auto simp: list_eq_iff_nth_eq nth_list_update simp del: upt_Suc)

lemma map2_same: "map2 g (map f xs) (map h xs) = map (\<lambda>x. g (f x) (h x)) xs"
  by (induction xs) simp_all

lemma sum_list_periods: "sum_list (map f [Suc 0..<Suc n]) = (\<Sum>i = Suc 0..n. f i)"
  by (simp add: interv_sum_list_conv_sum_set_nat atLeastLessThanSuc_atLeastAtMost del: upt_Suc)

lemma cash_flows_run:
  assumes "1 \<le> n"
  shows "bind_res (np_full (int n) (fv * c / 2)) (\<lambda>cf0. bind_res (add_last cf0 fv) k) =
         k (map (cash_flow fv c n) [1..<Suc n])"
proof -
  have "add_last (replicate n (fv * c / 2)) fv = Inr (map (cash_flow fv c n) [1..<Suc n])"
    using assms cash_flows_eq [OF assms, of "fv * c / 2" fv]
    by (simp add: add_last_def cash_flow_def del: upt_Suc)
  then show ?thesis
    by (simp add: np_full_def bind_res_def)
qed

lemma np_div_arr_run:
  assumes "1 + y / 2 \<noteq> 0"
  shows "np_div_arr (map (cash_flow fv c n) [1..<Suc n])
           (map (\<lambda>i. (1 + y / 2) ^ nat i) (map int [1..<Suc n])) =
         Inr (map (present_value fv c y n) [1..<Suc n])"
  using assms
  by (auto simp: np_div_arr_def present_value_def map2_same o_def simp del: upt_Suc)


lemma price_bond_periodic:
  assumes n: "py_int (m * 2) = int n" "1 \<le> n"
    and ok: "1 + y / 2 \<noteq> 0" "dcf_price fv c y n \<noteq> 0" "fv \<noteq> 0"
  shows "price_bond fv c y m = Inr (periodic_result fv c y n)"
proof -
  have n0: "int n \<noteq> 0" using n by simp
  show ?thesis
    unfolding price_bond_def Let_def n np_arange_nat
    apply (simp only: n0 if_False cash_flows_run [OF n(2)] np_div_arr_run [OF ok(1)])
    using ok
    apply (simp add: bind_res_def np_div_def map2_same sum_list_periods dcf_price_def
        periodic_result_def Let_def del: upt_Suc)
    apply (simp add: algebra_simps)
    done
qed

section \<open>Rounding\<close>

lemma round_half_even_of_int: "round_half_even (of_int k) = k"
  by (simp add: round_half_even_def)

lemma round_half_even_bounds:
  "of_int (round_half_even x) \<le> x + 1 / 2" "x - 1 / 2 \<le> of_int (round_half_even x)"
  unfolding round_half_even_def Let_def by (auto; linarith)+

lemma round_half_even_mono:
  assumes "x \<le> y"
  shows "round_half_even x \<le> round_half_even y"
proof -
  have fl: "\<lfloor>x\<rfloor> \<le> \<lfloor>y\<rfloor>" using assms by (rule floor_mono)
  show ?thesis
  proof (cases "\<lfloor>x\<rfloor> = \<lfloor>y\<rfloor>")
    case True
    with assms show ?thesis
      unfolding round_half_even_def Let_def by auto
  next
    case False
    with fl have lt: "\<lfloor>x\<rfloor> + 1 \<le> \<lfloor>y\<rfloor>" by simp
    have "round_half_even x \<le> \<lfloor>x\<rfloor> + 1"
      unfolding round_half_even_def Let_def by auto
    moreover have "\<lfloor>y\<rfloor> \<le> round_half_even y"
      unfolding round_half_even_def Let_def by auto
    ultimately show ?thesis using lt by linarith
  qed
qed

lemma py_round_mono: "x \<le> y \<Longrightarrow> py_round x k \<le> py_round y k"
  unfolding py_round_def
  by (intro divide_right_mono round_half_even_mono mult_right_mono iffD2 [OF of_int_le_iff]) simp_all

lemma py_round_of_int: "py_round (of_int k / 10 ^ d) d = of_int k / 10 ^ d"
  by (simp add: py_round_def round_half_even_of_int)

lemma py_round_diff: "py_round (py_round a d - py_round b d) d = py_round a d - py_round b d"
proof -
  have "py_round a d - py_round b d =
        of_int (round_half_even (a * 10 ^ d) - round_half_even (b * 10 ^ d)) / 10 ^ d"
    by (simp add: py_round_def diff_divide_distrib)
  then show ?thesis by (simp only: py_round_of_int)
qed

lemma py_round_zero: "py_round 0 d = 0"
  by (simp add: py_round_def round_half_even_def)

section \<open>Discounted prices\<close>

lemma cash_flow_nonneg: "0 \<le> fv \<Longrightarrow> 0 \<le> c \<Longrightarrow> 0 \<le> cash_flow fv c n i"
  by (simp add: cash_flow_def)

lemma cash_flow_last_pos: "0 < fv \<Longrightarrow> 0 \<le> c \<Longrightarrow> 0 < cash_flow fv c n n"
  by (simp add: cash_flow_def add_nonneg_pos)

lemma present_value_nonneg:
  "0 \<le> fv \<Longrightarrow> 0 \<le> c \<Longrightarrow> 0 < 1 + y / 2 \<Longrightarrow> 0 \<le> present_value fv c y n i"
  by (simp add: present_value_def cash_flow_nonneg)

lemma dcf_price_pos:
  assumes "0 < fv" "0 \<le> c" "0 < 1 + y / 2" "1 \<le> n"
  shows "0 < dcf_price fv c y n"
proof -
  have "0 < present_value fv c y n n"
    using assms by (simp add: present_value_def cash_flow_last_pos)
  moreover have "n \<in> {1..n}" using assms by simp
  moreover have "\<forall>i\<in>{1..n}. 0 \<le> present_value fv c y n i"
    using assms by (simp add: present_value_nonneg)
  ultimately show ?thesis
    unfolding dcf_price_def by (intro sum_pos2 [where i = n]) auto
qed

lemma present_value_antimono:
  assumes "0 \<le> fv" "0 \<le> c" "0 < 1 + y1 / 2" "y1 \<le> y2"
  shows "present_value fv c y2 n i \<le> present_value fv c y1 n i"
proof -
  have "(1 + y1 / 2) ^ i \<le> (1 + y2 / 2) ^ i"
    using assms by (intro power_mono) simp_all
  moreover have "0 < (1 + y1 / 2) ^ i" using assms by simp
  ultimately show ?thesis
    unfolding present_value_def using assms
    by (intro divide_left_mono cash_flow_nonneg) (simp_all add: zero_less_mult_iff)
qed

lemma present_value_last_strict:
  assumes "0 < fv" "0 \<le> c" "0 < 1 + y1 / 2" "y1 < y2" "1 \<le> n"
  shows "present_value fv c y2 n n < present_value fv c y1 n n"
proof -
  have "(1 + y1 / 2) ^ n < (1 + y2 / 2) ^ n"
    using assms by (intro power_strict_mono) simp_all
  moreover have "0 < (1 + y1 / 2) ^ n" using assms by simp
  ultimately show ?thesis
    unfolding present_value_def using assms
    by (intro divide_strict_left_mono cash_flow_last_pos) (simp_all add: zero_less_mult_iff)
qed

lemma dcf_price_strict_antimono:
  assumes "0 < fv" "0 \<le> c" "0 < 1 + y1 / 2" "y1 < y2" "1 \<le> n"
  shows "dcf_price fv c y2 n < dcf_price fv c y1 n"
  unfolding dcf_price_def
proof (rule sum_strict_mono_ex1)
  show "finite {1..n}" by simp
  show "\<forall>i\<in>{1..n}. present_value fv c y2 n i \<le> present_value fv c y1 n i"
    using assms by (simp add: present_value_antimono)
  show "\<exists>i\<in>{1..n}. present_value fv c y2 n i < present_value fv c y1 n i"
    using assms present_value_last_strict [OF assms] by (intro bexI [where x = n]) simp_all
qed

lemma py_int_pos: "0 \<le> x \<Longrightarrow> py_int x = \<lfloor>x\<rfloor>"
  by (simp add: py_int_def)

lemma py_int_zero_iff: "py_int (m * 2) = 0 \<longleftrightarrow> - 1 / 2 < m \<and> m < 1 / 2"
  unfolding py_int_def by (auto simp: floor_eq_iff ceiling_eq_iff)


lemma price_bond_discount:
  assumes "py_int (m * 2) = 0" "0 < 1 + y" "fv \<noteq> 0"
  shows "price_bond fv c y m = Inr (discount_result fv c y m)"
  using assms
  by (simp add: price_bond_def py_pow_def py_div_def bind_res_def discount_result_def Let_def)

lemma price_bond_valid_periodic:
  assumes "0 < fv" "0 \<le> c" "- 2 < y" "1 \<le> \<lfloor>m * 2\<rfloor>"
  shows "price_bond fv c y m = Inr (periodic_result fv c y (nat \<lfloor>m * 2\<rfloor>))"
proof -
  have m: "0 \<le> m * 2" using assms(4) by (simp add: le_floor_iff)
  have n: "py_int (m * 2) = int (nat \<lfloor>m * 2\<rfloor>)" "1 \<le> nat \<lfloor>m * 2\<rfloor>"
    using assms(4) m by (simp add: py_int_pos, linarith)
  have y: "0 < 1 + y / 2" using assms(3) by simp
  have "0 < dcf_price fv c y (nat \<lfloor>m * 2\<rfloor>)"
    using assms(1,2) y n(2) by (rule dcf_price_pos)
  then show ?thesis
    using price_bond_periodic [OF n, of y fv c] y assms(1) by simp
qed

lemma price_bond_valid_discount:
  assumes "0 < fv" "- 1 < y" "0 < m" "m < 1 / 2"
  shows "price_bond fv c y m = Inr (discount_result fv c y m)"
  using assms by (intro price_bond_discount) (simp_all add: py_int_zero_iff)

section \<open>The claims on price-bond\<close>

text \<open>
  C1. For a bond with \<open>face_value > 0\<close>, \<open>coupon_rate \<ge> 0\<close>, \<open>ytm > -1\<close>,
  \<open>maturity_years > 0\<close> and \<open>n = floor (maturity_years * 2) \<ge> 1\<close>, \<open>price_bond\<close>
  returns, and its price is the sum over the periods \<open>1..n\<close> of the cash flow (the
  semi-annual coupon, with the principal in the last period) divided by
  \<open>(1 + ytm / 2) ^ i\<close>, rounded to 4 decimal places.
\<close>

theorem price_bond_periodic_price:
  assumes "0 < fv" "0 \<le> c" "- 1 < y" "0 < m" "1 \<le> \<lfloor>m * 2\<rfloor>"
  shows "\<exists>r. price_bond fv c y m = Inr r \<and>
           price r = NpFloat (py_round
             (\<Sum>i = 1..nat \<lfloor>m * 2\<rfloor>.
                (fv * c / 2 + (if i = nat \<lfloor>m * 2\<rfloor> then fv else 0)) / (1 + y / 2) ^ i) 4)"
proof -
  have "price_bond fv c y m = Inr (periodic_result fv c y (nat \<lfloor>m * 2\<rfloor>))"
    using assms by (intro price_bond_valid_periodic) simp_all
  then show ?thesis
    by (simp add: periodic_result_def dcf_price_def present_value_def cash_flow_def Let_def)
qed

lemma dcf_price_par: "dcf_price 1000 (1 / 20) (1 / 20) 2 = 1000"
  by (simp add: dcf_price_def present_value_def cash_flow_def numeral_2_eq_2)

lemma py_round_1000: "py_round 1000 4 = 1000"
  using py_round_of_int [of 10000000 4] by simp

theorem price_bond_periodic_price_witness:
  "(0::real) < 1000 \<and> (0::real) \<le> 1 / 20 \<and> (- 1::real) < 1 / 20 \<and> (0::real) < 1 \<and>
   1 \<le> \<lfloor>(1::real) * 2\<rfloor> \<and>
   (\<exists>r. price_bond 1000 (1 / 20) (1 / 20) 1 = Inr r \<and> price r = NpFloat 1000)"
  using price_bond_periodic_price [of 1000 "1 / 20" "1 / 20" 1] py_round_1000
  by (simp add: numeral_2_eq_2)

text \<open>
  C2. For a bond with \<open>0 < maturity_years < 0.5\<close> (no whole period), \<open>price_bond\<close>
  returns the result of the discount branch: the price \<open>face_value / (1 + ytm)\<close> to the
  power \<open>maturity_years\<close>, the Macaulay duration \<open>maturity_years\<close>, the modified
  duration \<open>maturity_years / (1 + ytm)\<close>, the DV01
  \<open>price * maturity_years / (1 + ytm) / 10000\<close> on the unrounded price, each rounded to 4
  decimal places on output, and convexity and current yield 0.
\<close>

theorem price_bond_discount_branch:
  assumes "0 < fv" "0 \<le> c" "- 1 < y" "0 < m" "m < 1 / 2"
  shows "price_bond fv c y m =
         Inr \<lparr>price = PyFloat (py_round (fv / (1 + y) powr m) 4),
              macaulay_duration = PyFloat (py_round m 4),
              modified_duration = PyFloat (py_round (m / (1 + y)) 4),
              convexity = PyFloat 0,
              dv01 = PyFloat (py_round (fv / (1 + y) powr m * m / (1 + y) / 10000) 4),
              current_yield = PyFloat 0,
              price_to_face = PyFloat (py_round (fv / (1 + y) powr m / fv * 100) 4),
              ytm_pct = PyFloat (py_round (y * 100) 4),
              coupon_pct = PyFloat (py_round (c * 100) 4)\<rparr>"
  using price_bond_valid_discount [OF assms(1,3,4,5), of c]
  unfolding discount_result_def Let_def .

theorem price_bond_discount_branch_witness:
  "(0::real) < 1000 \<and> (0::real) \<le> 0 \<and> (- 1::real) < 0 \<and> (0::real) < 1 / 4 \<and> (1 / 4::real) < 1 / 2 \<and>
   price_bond 1000 0 0 (1 / 4) =
     Inr \<lparr>price = PyFloat 1000, macaulay_duration = PyFloat (1 / 4),
          modified_duration = PyFloat (1 / 4), convexity = PyFloat 0,
          dv01 = PyFloat (250 / 10000), current_yield = PyFloat 0,
          price_to_face = PyFloat 100, ytm_pct = PyFloat 0, coupon_pct = PyFloat 0\<rparr>"
  using price_bond_discount_branch [of 1000 0 0 "1 / 4"]
    py_round_of_int [of 10000000 4] py_round_of_int [of 2500 4] py_round_of_int [of 250 4]
    py_round_of_int [of 1000000 4] py_round_of_int [of 0 4]
  by simp

section \<open>Values of dictionary numbers\<close>

lemma py_round_int: "py_round (of_int i) d = of_int i"
  using py_round_of_int [of "i * 10 ^ d" d] by simp

lemma val_num_sub: "val (num_sub a b) = val a - val b"
  by (cases a; cases b) (simp_all add: num_like_def)

lemma val_num_mul: "val (num_mul a b) = val a * val b"
  by (cases a; cases b) (simp_all add: num_like_def)

lemma val_num_round: "val (num_round a d) = py_round (val a) d"
  by (cases a) (simp_all add: num_like_def py_round_int)

lemma num_div_Inr:
  "num_div a b = Inr r \<Longrightarrow>
     (if val b = 0 then r = NanOrInf else \<exists>x. r = Quotient x \<and> val x = val a / val b)"
  by (auto simp: num_div_def py_div_def split: if_splits)

lemma num_div_nonzero: "val b \<noteq> 0 \<Longrightarrow> \<exists>r. num_div a b = Inr r"
  by (simp add: num_div_def py_div_def)

section \<open>The loop over the shocks\<close>

lemma bind_res_Inr: "bind_res m f = Inr r \<longleftrightarrow> (\<exists>v. m = Inr v \<and> f v = Inr r)"
  by (cases m) (simp_all add: bind_res_def)

lemma stress_loop_Inr:
  "stress_loop fv c y m q base shs acc = Inr rs \<longleftrightarrow>
   (\<exists>ss. list_all2 (\<lambda>sh s. stress_scenario_of fv c y m q base sh = Inr s) shs ss \<and>
         rs = acc @ ss)"
proof (induction shs arbitrary: acc)
  case Nil
  then show ?case by auto
next
  case (Cons sh shs)
  show ?case
    by (auto simp: bind_res_Inr Cons.IH list_all2_Cons1)
qed

lemma stress_test_bond_Inr:
  "stress_test_bond fv c y m q = Inr rs \<longleftrightarrow>
   (\<exists>base. price_bond fv c y m = Inr base \<and>
      list_all2 (\<lambda>sh s. stress_scenario_of fv c y m q base sh = Inr s) shocks rs)"
  by (simp add: stress_test_bond_def bind_res_Inr stress_loop_Inr)

lemma length_shocks: "length shocks = 9"
  by (simp add: shocks_def)

lemma stress_scenario_of_Inr:
  "stress_scenario_of fv c y m q base sh = Inr s \<longleftrightarrow>
   (\<exists>sp ratio. price_bond fv c (shocked_yield y sh) m = Inr sp \<and>
      num_div (num_sub (price sp) (price base)) (price base) = Inr ratio \<and>
      s = \<lparr>shock_bps = sh,
           shocked_ytm = PyFloat (py_round (shocked_yield y sh * 100) 4),
           scenario_price = price sp,
           pnl_per_bond = num_round (num_sub (price sp) (price base)) 4,
           total_pnl = Rounded (num_mul (num_sub (price sp) (price base)) q) 2,
           pnl_pct = quotient_round (quotient_mul ratio (PyInt 100)) 4\<rparr>)"
  by (auto simp: stress_scenario_of_def bind_res_Inr Let_def)

lemma stress_nth:
  assumes "stress_test_bond fv c y m q = Inr rs" "price_bond fv c y m = Inr base" "i < 9"
  shows "length rs = 9" "stress_scenario_of fv c y m q base (shocks ! i) = Inr (rs ! i)"
proof -
  from assms(1,2) have l: "list_all2 (\<lambda>sh s. stress_scenario_of fv c y m q base sh = Inr s) shocks rs"
    by (auto simp: stress_test_bond_Inr)
  then show "length rs = 9" by (simp add: list_all2_lengthD [symmetric] length_shocks)
  from l assms(3) show "stress_scenario_of fv c y m q base (shocks ! i) = Inr (rs ! i)"
    by (simp add: list_all2_conv_all_nth length_shocks)
qed

lemma shocked_yield_floor: "1 / 10000 \<le> shocked_yield y sh"
  by (simp add: shocked_yield_def)

lemma list_all2_exists:
  "\<forall>x\<in>set xs. \<exists>y. P x y \<Longrightarrow> \<exists>ys. list_all2 P xs ys"
  by (induction xs) (auto simp: list_all2_Cons1)

lemma stress_returns:
  assumes base: "price_bond fv c y m = Inr base" "val (price base) \<noteq> 0"
    and sc: "\<And>sh. sh \<in> set shocks \<Longrightarrow> \<exists>sp. price_bond fv c (shocked_yield y sh) m = Inr sp"
  shows "\<exists>rs. stress_test_bond fv c y m q = Inr rs"
proof -
  have "\<forall>sh\<in>set shocks. \<exists>s. stress_scenario_of fv c y m q base sh = Inr s"
  proof
    fix sh assume "sh \<in> set shocks"
    then obtain sp where sp: "price_bond fv c (shocked_yield y sh) m = Inr sp"
      using sc by blast
    obtain ratio where "num_div (num_sub (price sp) (price base)) (price base) = Inr ratio"
      using num_div_nonzero [OF base(2)] by blast
    with sp show "\<exists>s. stress_scenario_of fv c y m q base sh = Inr s"
      by (simp add: stress_scenario_of_Inr)
  qed
  then have "\<exists>rs. list_all2 (\<lambda>sh s. stress_scenario_of fv c y m q base sh = Inr s) shocks rs"
    by (rule list_all2_exists)
  with base(1) show ?thesis
    by (auto simp: stress_test_bond_Inr)
qed

lemma stress_returns_valid:
  assumes "0 < fv" "0 \<le> c" "- 1 < y" "0 < m"
    and "map_sum id (\<lambda>r. val (price r)) (price_bond fv c y m) \<noteq> Inr 0"
  shows "\<exists>rs. stress_test_bond fv c y m q = Inr rs"
proof (cases "m < 1 / 2")
  case True
  have b: "price_bond fv c y m = Inr (discount_result fv c y m)"
    using assms True by (intro price_bond_valid_discount) simp_all
  show ?thesis
  proof (rule stress_returns [OF b])
    show "val (price (discount_result fv c y m)) \<noteq> 0" using assms(5) b by simp
    fix sh
    have "- 1 < shocked_yield y sh" using shocked_yield_floor [of y sh] by simp
    then have "price_bond fv c (shocked_yield y sh) m = Inr (discount_result fv c (shocked_yield y sh) m)"
      using assms True by (intro price_bond_valid_discount) simp_all
    then show "\<exists>sp. price_bond fv c (shocked_yield y sh) m = Inr sp" by blast
  qed
next
  case False
  then have n: "1 \<le> \<lfloor>m * 2\<rfloor>" by (simp add: le_floor_iff)
  have b: "price_bond fv c y m = Inr (periodic_result fv c y (nat \<lfloor>m * 2\<rfloor>))"
    using assms n by (intro price_bond_valid_periodic) simp_all
  show ?thesis
  proof (rule stress_returns [OF b])
    show "val (price (periodic_result fv c y (nat \<lfloor>m * 2\<rfloor>))) \<noteq> 0" using assms(5) b by simp
    fix sh
    have "- 2 < shocked_yield y sh" using shocked_yield_floor [of y sh] by simp
    then have "price_bond fv c (shocked_yield y sh) m =
               Inr (periodic_result fv c (shocked_yield y sh) (nat \<lfloor>m * 2\<rfloor>))"
      using assms n by (intro price_bond_valid_periodic) simp_all
    then show "\<exists>sp. price_bond fv c (shocked_yield y sh) m = Inr sp" by blast
  qed
qed

lemma shocks_nth:
  "shocks ! 0 = - 300" "shocks ! 1 = - 200" "shocks ! 2 = - 100" "shocks ! 3 = - 50"
  "shocks ! 4 = 0" "shocks ! 5 = 50" "shocks ! 6 = 100" "shocks ! 7 = 200" "shocks ! 8 = 300"
  by (simp_all add: shocks_def)

lemma list_all2_map_eq: "list_all2 (\<lambda>x y. f y = x) xs ys \<Longrightarrow> map f ys = xs"
  by (induction xs ys rule: list_all2_induct) simp_all

lemma stress_shock_bps:
  assumes "stress_test_bond fv c y m q = Inr rs"
  shows "map shock_bps rs = shocks"
proof -
  obtain base where "list_all2 (\<lambda>sh s. stress_scenario_of fv c y m q base sh = Inr s) shocks rs"
    using assms by (auto simp: stress_test_bond_Inr)
  then have "list_all2 (\<lambda>sh s. shock_bps s = sh) shocks rs"
    by (rule list_all2_mono) (auto simp: stress_scenario_of_Inr)
  then show ?thesis
    by (rule list_all2_map_eq)
qed

lemma price_bond_example:
  "price_bond 1000 (1 / 20) (1 / 20) 1 = Inr (periodic_result 1000 (1 / 20) (1 / 20) 2)"
  using price_bond_valid_periodic [of 1000 "1 / 20" "1 / 20" 1] by simp

lemma price_example: "price (periodic_result 1000 (1 / 20) (1 / 20) 2) = NpFloat 1000"
  by (simp add: periodic_result_def Let_def dcf_price_par py_round_1000)

lemma stress_example:
  "\<exists>rs. stress_test_bond 1000 (1 / 20) (1 / 20) 1 (PyInt 1) = Inr rs"
  by (rule stress_returns_valid) (simp_all add: price_bond_example price_example)

section \<open>The claims on stress-test-bond\<close>

text \<open>
  C7, as amended. Every report that \<open>stress_test_bond\<close> returns has exactly nine
  scenarios, with the shocks -300, -200, -100, -50, 0, 50, 100, 200, 300 in that order;
  and it returns a report for every bond with \<open>face_value > 0\<close>,
  \<open>coupon_rate \<ge> 0\<close>, \<open>ytm > -1\<close> and \<open>maturity_years > 0\<close> whose base
  price does not round to zero. It does not return one for every input: a maturity of -1
  year ends in the \<^verbatim>\<open>ValueError\<close> of \<^verbatim>\<open>np.full\<close>.
\<close>

theorem stress_shock_order:
  "(stress_test_bond fv c y m q = Inr rs \<longrightarrow>
      map shock_bps rs = [- 300, - 200, - 100, - 50, 0, 50, 100, 200, 300]) \<and>
   (0 < fv \<and> 0 \<le> c \<and> - 1 < y \<and> 0 < m \<and>
    map_sum id (\<lambda>r. val (price r)) (price_bond fv c y m) \<noteq> Inr 0 \<longrightarrow>
      (\<exists>rs. stress_test_bond fv c y m q = Inr rs))"
  using stress_shock_bps [of fv c y m q rs] stress_returns_valid [of fv c y m q]
  by (auto simp: shocks_def)

theorem stress_shock_order_witness:
  "\<exists>rs. stress_test_bond 1000 (1 / 20) (1 / 20) 1 (PyInt 1) = Inr rs \<and>
        map shock_bps rs = [- 300, - 200, - 100, - 50, 0, 50, 100, 200, 300]"
proof -
  obtain rs where rs: "stress_test_bond 1000 (1 / 20) (1 / 20) 1 (PyInt 1) = Inr rs"
    using stress_example by blast
  have "map shock_bps rs = [- 300, - 200, - 100, - 50, 0, 50, 100, 200, 300]"
    using stress_shock_order [of 1000 "1 / 20" "1 / 20" 1 "PyInt 1" rs] rs by simp
  with rs show ?thesis by (intro exI [of _ rs]) simp
qed

theorem stress_negative_maturity_counterexample:
  "stress_test_bond 1000 (1 / 20) (1 / 20) (- 1) (PyInt 1) = Inl ValueError"
  by (simp add: stress_test_bond_def price_bond_def py_int_def np_full_def bind_res_def)

text \<open>
  C4. In every scenario of a returned report, the yield that the scenario is repriced at
  is \<open>max(0.0001, ytm + shock_bps / 10000)\<close>, which is at least 0.0001: the scenario's
  price is the price of \<open>price_bond\<close> at that yield, and its \<open>shocked_ytm\<close> is that
  yield in percent, rounded. For a yield of 0.0050 and a shock of -300 it is 0.0001.
\<close>

theorem stress_shocked_yield:
  assumes "stress_test_bond fv c y m q = Inr rs" "i < length rs"
  shows "shock_bps (rs ! i) = shocks ! i \<and>
         shocked_yield y (shocks ! i) = max (1 / 10000) (y + of_int (shocks ! i) / 10000) \<and>
         1 / 10000 \<le> shocked_yield y (shocks ! i) \<and>
         map_sum id price (price_bond fv c (shocked_yield y (shocks ! i)) m) =
           Inr (scenario_price (rs ! i)) \<and>
         shocked_ytm (rs ! i) = PyFloat (py_round (shocked_yield y (shocks ! i) * 100) 4) \<and>
         shocked_yield (50 / 10000) (- 300) = 1 / 10000"
proof -
  obtain base where base: "price_bond fv c y m = Inr base"
    using assms(1) by (auto simp: stress_test_bond_Inr)
  have i: "i < 9" using stress_nth(1) [OF assms(1) base, of 0] assms(2) by simp
  have "stress_scenario_of fv c y m q base (shocks ! i) = Inr (rs ! i)"
    using assms(1) base i by (rule stress_nth(2))
  then show ?thesis
    using shocked_yield_floor [of y "shocks ! i"]
    by (auto simp: stress_scenario_of_Inr shocked_yield_def)
qed

theorem stress_shocked_yield_witness:
  "\<exists>rs. stress_test_bond 1000 (1 / 20) (1 / 20) 1 (PyInt 1) = Inr rs \<and> 0 < length rs \<and>
     shock_bps (rs ! 0) = - 300 \<and>
     map_sum id price (price_bond 1000 (1 / 20) (2 / 100) 1) = Inr (scenario_price (rs ! 0)) \<and>
     shocked_ytm (rs ! 0) = PyFloat 2"
proof -
  obtain rs where rs: "stress_test_bond 1000 (1 / 20) (1 / 20) 1 (PyInt 1) = Inr rs"
    using stress_example by blast
  have l: "0 < length rs"
    using stress_nth(1) [OF rs price_bond_example, of 0] by simp
  have y: "shocked_yield (1 / 20) (- 300) = 2 / 100"
    by (simp add: shocked_yield_def)
  show ?thesis
    using stress_shocked_yield [OF rs l] rs l py_round_of_int [of 20000 4]
    by (intro exI [of _ rs]) (simp add: shocks_nth y)
qed

lemma shocked_yield_zero: "1 / 10000 \<le> y \<Longrightarrow> shocked_yield y 0 = y"
  by (simp add: shocked_yield_def)

text \<open>
  C3, as amended. For a yield of at least 0.0001, the scenario of shock 0 in a returned
  report has the base price as its price and 0 as its P&L per bond. Below that yield the
  floor of the shocked yield makes the scenario reprice at 0.0001, not at the base yield:
  at a yield of 0 the base price of the example is 1050 and the scenario's is 1049.8963.
\<close>

theorem stress_zero_shock:
  assumes "1 / 10000 \<le> y" "stress_test_bond fv c y m q = Inr rs"
  shows "shock_bps (rs ! 4) = 0 \<and>
         map_sum id price (price_bond fv c y m) = Inr (scenario_price (rs ! 4)) \<and>
         val (pnl_per_bond (rs ! 4)) = 0"
proof -
  obtain base where base: "price_bond fv c y m = Inr base"
    using assms(2) by (auto simp: stress_test_bond_Inr)
  have "stress_scenario_of fv c y m q base (shocks ! 4) = Inr (rs ! 4)"
    using assms(2) base by (rule stress_nth(2)) simp
  then show ?thesis
    using base assms(1)
    by (auto simp: stress_scenario_of_Inr shocks_nth shocked_yield_zero val_num_round
        val_num_sub py_round_zero)
qed

theorem stress_zero_shock_witness:
  "(1 / 10000 :: real) \<le> 1 / 20 \<and>
   (\<exists>rs. stress_test_bond 1000 (1 / 20) (1 / 20) 1 (PyInt 1) = Inr rs \<and>
      shock_bps (rs ! 4) = 0 \<and> scenario_price (rs ! 4) = NpFloat 1000 \<and>
      val (pnl_per_bond (rs ! 4)) = 0)"
proof -
  obtain rs where rs: "stress_test_bond 1000 (1 / 20) (1 / 20) 1 (PyInt 1) = Inr rs"
    using stress_example by blast
  have "shock_bps (rs ! 4) = 0 \<and> scenario_price (rs ! 4) = NpFloat 1000 \<and>
        val (pnl_per_bond (rs ! 4)) = 0"
    using stress_zero_shock [OF _ rs] by (simp add: price_bond_example price_example)
  with rs show ?thesis by (intro conjI exI [of _ rs]) simp_all
qed

lemma dcf_price_two:
  "dcf_price fv c y 2 = (fv * c / 2) / (1 + y / 2) + (fv * c / 2 + fv) / (1 + y / 2) ^ 2"
  by (simp add: dcf_price_def present_value_def cash_flow_def numeral_2_eq_2)

lemma dcf_price_one: "dcf_price fv c y 1 = (fv * c / 2 + fv) / (1 + y / 2)"
  by (simp add: dcf_price_def present_value_def cash_flow_def)

lemma py_round_eqI:
  assumes "of_int k - 1 / 2 < x * 10 ^ d" "x * 10 ^ d < of_int k + 1 / 2"
  shows "py_round x d = of_int k / 10 ^ d"
proof -
  have "round_half_even (x * 10 ^ d) = k"
    using round_half_even_bounds [of "x * 10 ^ d"] assms by linarith
  then show ?thesis by (simp add: py_round_def)
qed

lemma val_num_like: "val (num_like a b x) = x"
  by (simp add: num_like_def)

lemma dcf_price_floor_example:
  "dcf_price 1000 (1 / 20) (1 / 10000) 2 = 420000500000 / 400040001"
  by (simp add: dcf_price_two power2_eq_square)

lemma price_floor_example:
  "price (periodic_result 1000 (1 / 20) (1 / 10000) 2) = NpFloat (10498963 / 10000)"
proof -
  have "py_round (420000500000 / 400040001) 4 = 10498963 / 10000"
    using py_round_eqI [of 10498963 "420000500000 / 400040001" 4] by simp
  then show ?thesis
    by (simp add: periodic_result_def Let_def dcf_price_floor_example)
qed

lemma price_zero_yield_example: "price (periodic_result 1000 (1 / 20) 0 2) = NpFloat 1050"
  using py_round_of_int [of 10500000 4]
  by (simp add: periodic_result_def Let_def dcf_price_two)

theorem stress_zero_shock_counterexample:
  "map_sum id (\<lambda>r. val (price r)) (price_bond 1000 (1 / 20) 0 1) = Inr 1050 \<and>
   map_sum id (\<lambda>rs. (shock_bps (rs ! 4), val (scenario_price (rs ! 4)), val (pnl_per_bond (rs ! 4))))
     (stress_test_bond 1000 (1 / 20) 0 1 (PyInt 1)) = Inr (0, 10498963 / 10000, - (1037 / 10000))"
proof -
  have base: "price_bond 1000 (1 / 20) 0 1 = Inr (periodic_result 1000 (1 / 20) 0 2)"
    using price_bond_valid_periodic [of 1000 "1 / 20" 0 1] by simp
  have sp: "price_bond 1000 (1 / 20) (1 / 10000) 1 = Inr (periodic_result 1000 (1 / 20) (1 / 10000) 2)"
    using price_bond_valid_periodic [of 1000 "1 / 20" "1 / 10000" 1] by simp
  obtain rs where rs: "stress_test_bond 1000 (1 / 20) 0 1 (PyInt 1) = Inr rs"
    using stress_returns_valid [of 1000 "1 / 20" 0 1 "PyInt 1"]
    by (auto simp: base price_zero_yield_example)
  have "stress_scenario_of 1000 (1 / 20) 0 1 (PyInt 1) (periodic_result 1000 (1 / 20) 0 2)
          (shocks ! 4) = Inr (rs ! 4)"
    using rs base by (rule stress_nth(2)) simp
  then have "shock_bps (rs ! 4) = 0 \<and> val (scenario_price (rs ! 4)) = 10498963 / 10000 \<and>
             val (pnl_per_bond (rs ! 4)) = - (1037 / 10000)"
    using py_round_of_int [of "- 1037" 4]
    by (auto simp: stress_scenario_of_Inr shocks_nth shocked_yield_def sp price_floor_example
        price_zero_yield_example val_num_round val_num_sub val_num_like)
  then show ?thesis
    by (simp add: base rs price_zero_yield_example)
qed

lemma price_bond_rounded:
  assumes "price_bond fv c y m = Inr r"
  shows "py_round (val (price r)) 4 = val (price r)"
proof -
  have "\<exists>x. val (price r) = py_round x 4"
    using assms
    by (auto simp: price_bond_def bind_res_Inr Let_def split: if_splits)
  then obtain x where "val (price r) = py_round x 4" by blast
  then show ?thesis
    using py_round_of_int [of "round_half_even (x * 10 ^ 4)" 4] by (simp add: py_round_def)
qed

lemma rounds_to_py_round: "rounds_to (Rounded a n) (py_round (val a) n)"
proof -
  have "\<bar>val a * 10 ^ n - of_int (round_half_even (val a * 10 ^ n))\<bar> \<le> 1 / 2"
    using round_half_even_bounds [of "val a * 10 ^ n"] by linarith
  then show ?thesis by (simp add: py_round_def)
qed

lemma is_round_rounds_to:
  "is_round v x n \<Longrightarrow>
   rounds_to v r \<longleftrightarrow> r * 10 ^ n = of_int \<lfloor>r * 10 ^ n\<rfloor> \<and> \<bar>x * 10 ^ n - r * 10 ^ n\<bar> \<le> 1 / 2"
  by (cases v) auto

lemma rounds_to_close:
  assumes "is_round v x n" "rounds_to v r"
  shows "\<bar>r - x\<bar> \<le> 1 / (2 * 10 ^ n)"
proof -
  have "\<bar>x * 10 ^ n - r * 10 ^ n\<bar> \<le> 1 / 2"
    using assms by (simp add: is_round_rounds_to)
  moreover have "\<bar>x * 10 ^ n - r * 10 ^ n\<bar> = \<bar>r - x\<bar> * 10 ^ n"
    by (simp add: left_diff_distrib [symmetric] abs_mult abs_minus_commute)
  ultimately have "\<bar>r - x\<bar> * 10 ^ n \<le> 1 / 2" by simp
  then show ?thesis by (simp add: field_simps)
qed

lemma rounds_to_off_tie:
  assumes "is_round v x n" "rounds_to v r"
    and "x * 10 ^ n - of_int \<lfloor>x * 10 ^ n\<rfloor> \<noteq> 1 / 2"
  shows "r = py_round x n"
proof -
  define k where "k = \<lfloor>r * 10 ^ n\<rfloor>"
  have k: "r * 10 ^ n = of_int k" "\<bar>x * 10 ^ n - of_int k\<bar> \<le> 1 / 2"
    using assms(1,2) by (simp_all add: is_round_rounds_to k_def)
  have "round_half_even (x * 10 ^ n) = k"
    using k(2) assms(3) unfolding round_half_even_def Let_def
    by (auto simp: abs_le_iff; linarith)
  then have "py_round x n = of_int k / 10 ^ n" by (simp add: py_round_def)
  also have "\<dots> = r" using k(1) by (simp add: field_simps)
  finally show ?thesis by simp
qed

text \<open>
  C10. In every scenario of a returned report the P&L figures come from the rounded
  prices: the scenario's price and the base price are already rounded to 4 decimal places,
  \<open>pnl_per_bond\<close> is their difference rounded to 4 decimal places (which, on exact
  decimals, is the difference itself), \<open>total_pnl\<close> is the rounding to 2 decimal places
  of that difference times the quantity, and \<open>pnl_pct\<close> is the rounding to 4 decimal
  places of that difference divided by the rounded base price, times 100 (inf or nan when
  that base price is 0). The values they can have are within 0.005 and 0.00005 of those
  figures, and the value of \<open>py_round\<close> is one of them.
\<close>

theorem stress_pnl_from_rounded_prices:
  assumes "stress_test_bond fv c y m q = Inr rs" "price_bond fv c y m = Inr base"
    "i < length rs"
  shows "py_round (val (scenario_price (rs ! i))) 4 = val (scenario_price (rs ! i)) \<and>
         py_round (val (price base)) 4 = val (price base) \<and>
         val (pnl_per_bond (rs ! i)) =
           py_round (val (scenario_price (rs ! i)) - val (price base)) 4 \<and>
         val (pnl_per_bond (rs ! i)) = val (scenario_price (rs ! i)) - val (price base) \<and>
         is_round (total_pnl (rs ! i))
           ((val (scenario_price (rs ! i)) - val (price base)) * val q) 2 \<and>
         (if val (price base) = 0 then pnl_pct (rs ! i) = RoundedNanOrInf
          else is_round (pnl_pct (rs ! i))
                 ((val (scenario_price (rs ! i)) - val (price base)) / val (price base) * 100) 4) \<and>
         rounds_to (total_pnl (rs ! i))
           (py_round ((val (scenario_price (rs ! i)) - val (price base)) * val q) 2) \<and>
         (\<forall>r. rounds_to (total_pnl (rs ! i)) r \<longrightarrow>
            \<bar>r - (val (scenario_price (rs ! i)) - val (price base)) * val q\<bar> \<le> 1 / 200) \<and>
         (\<forall>r. rounds_to (pnl_pct (rs ! i)) r \<longrightarrow>
            \<bar>r - (val (scenario_price (rs ! i)) - val (price base)) / val (price base) * 100\<bar>
              \<le> 1 / 20000)"
proof -
  have i: "i < 9" using stress_nth(1) [OF assms(1,2), of 0] assms(3) by simp
  have "stress_scenario_of fv c y m q base (shocks ! i) = Inr (rs ! i)"
    using assms(1,2) i by (rule stress_nth(2))
  then obtain sp ratio where
    sp: "price_bond fv c (shocked_yield y (shocks ! i)) m = Inr sp" and
    ratio: "num_div (num_sub (price sp) (price base)) (price base) = Inr ratio" and
    s: "scenario_price (rs ! i) = price sp"
       "pnl_per_bond (rs ! i) = num_round (num_sub (price sp) (price base)) 4"
       "total_pnl (rs ! i) = Rounded (num_mul (num_sub (price sp) (price base)) q) 2"
       "pnl_pct (rs ! i) = quotient_round (quotient_mul ratio (PyInt 100)) 4"
    by (auto simp: stress_scenario_of_Inr)
  have r1: "py_round (val (scenario_price (rs ! i))) 4 = val (scenario_price (rs ! i))"
    using price_bond_rounded [OF sp] by (simp add: s)
  have r2: "py_round (val (price base)) 4 = val (price base)"
    using assms(2) by (rule price_bond_rounded)
  have d: "py_round (val (scenario_price (rs ! i)) - val (price base)) 4 =
           val (scenario_price (rs ! i)) - val (price base)"
    using py_round_diff [of "val (scenario_price (rs ! i))" 4 "val (price base)"]
    by (simp add: r1 r2)
  have d1: "val (pnl_per_bond (rs ! i)) =
            py_round (val (scenario_price (rs ! i)) - val (price base)) 4"
    by (simp add: s val_num_round val_num_sub)
  have d2: "val (pnl_per_bond (rs ! i)) = val (scenario_price (rs ! i)) - val (price base)"
    using d1 d by simp
  have t: "is_round (total_pnl (rs ! i))
             ((val (scenario_price (rs ! i)) - val (price base)) * val q) 2"
    by (simp add: s val_num_mul val_num_sub)
  have p: "if val (price base) = 0 then pnl_pct (rs ! i) = RoundedNanOrInf
           else is_round (pnl_pct (rs ! i))
                  ((val (scenario_price (rs ! i)) - val (price base)) / val (price base) * 100) 4"
    using num_div_Inr [OF ratio] by (auto simp: s val_num_mul val_num_sub)
  have tr: "rounds_to (total_pnl (rs ! i))
              (py_round ((val (scenario_price (rs ! i)) - val (price base)) * val q) 2)"
    using rounds_to_py_round [of "num_mul (num_sub (price sp) (price base)) q" 2]
    by (simp add: s val_num_mul val_num_sub)
  have tb: "\<bar>r - (val (scenario_price (rs ! i)) - val (price base)) * val q\<bar> \<le> 1 / 200"
    if "rounds_to (total_pnl (rs ! i)) r" for r
    using rounds_to_close [OF t that] by simp
  have pb: "\<bar>r - (val (scenario_price (rs ! i)) - val (price base)) / val (price base) * 100\<bar>
              \<le> 1 / 20000"
    if "rounds_to (pnl_pct (rs ! i)) r" for r
  proof (cases "val (price base) = 0")
    case True
    with p that show ?thesis by simp
  next
    case False
    with p have "is_round (pnl_pct (rs ! i))
                   ((val (scenario_price (rs ! i)) - val (price base)) / val (price base) * 100) 4"
      by simp
    from rounds_to_close [OF this that] show ?thesis by simp
  qed
  show ?thesis
    using r1 r2 d1 d2 t p tr tb pb by blast
qed

lemma price_half_year_base:
  "price (periodic_result 1000 (1 / 20) (1 / 20) (Suc 0)) = NpFloat 1000"
  using py_round_of_int [of 10000000 4]
  by (simp add: periodic_result_def Let_def dcf_price_def present_value_def cash_flow_def)

lemma price_half_year_minus_50:
  "price (periodic_result 1000 (1 / 20) (9 / 200) (Suc 0)) = NpFloat (1002445 / 1000)"
proof -
  have "py_round (410000 / 409) 4 = 10024450 / 10 ^ 4"
    using py_round_eqI [of 10024450 "410000 / 409" 4] by simp
  then show ?thesis
    by (simp add: periodic_result_def Let_def dcf_price_def present_value_def cash_flow_def)
qed

lemma price_half_year_minus_300:
  "price (periodic_result 1000 (1 / 20) (1 / 50) (Suc 0)) = NpFloat (10148515 / 10000)"
proof -
  have "py_round (102500 / 101) 4 = 10148515 / 10 ^ 4"
    using py_round_eqI [of 10148515 "102500 / 101" 4] by simp
  then show ?thesis
    by (simp add: periodic_result_def Let_def dcf_price_def present_value_def cash_flow_def)
qed

theorem stress_pnl_from_rounded_prices_witness:
  "\<exists>rs. stress_test_bond 1000 (1 / 20) (1 / 20) (1 / 2) (PyInt 1) = Inr rs \<and>
     price_bond 1000 (1 / 20) (1 / 20) (1 / 2) =
       Inr (periodic_result 1000 (1 / 20) (1 / 20) (Suc 0)) \<and>
     3 < length rs \<and>
     val (scenario_price (rs ! 3)) = 1002445 / 1000 \<and>
     val (pnl_per_bond (rs ! 3)) = 2445 / 1000 \<and>
     is_round (total_pnl (rs ! 3)) (2445 / 1000) 2 \<and>
     rounds_to (total_pnl (rs ! 3)) (245 / 100) \<and>
     rounds_to (total_pnl (rs ! 3)) (244 / 100) \<and>
     val (scenario_price (rs ! 0)) = 10148515 / 10000 \<and>
     is_round (pnl_pct (rs ! 0)) (148515 / 100000) 4 \<and>
     rounds_to (pnl_pct (rs ! 0)) (14851 / 10000) \<and>
     rounds_to (pnl_pct (rs ! 0)) (14852 / 10000)"
proof -
  have base: "price_bond 1000 (1 / 20) (1 / 20) (1 / 2) =
              Inr (periodic_result 1000 (1 / 20) (1 / 20) (Suc 0))"
    using price_bond_valid_periodic [of 1000 "1 / 20" "1 / 20" "1 / 2"] by simp
  have sp3: "price_bond 1000 (1 / 20) (9 / 200) (1 / 2) =
             Inr (periodic_result 1000 (1 / 20) (9 / 200) (Suc 0))"
    using price_bond_valid_periodic [of 1000 "1 / 20" "9 / 200" "1 / 2"] by simp
  have sp0: "price_bond 1000 (1 / 20) (1 / 50) (1 / 2) =
             Inr (periodic_result 1000 (1 / 20) (1 / 50) (Suc 0))"
    using price_bond_valid_periodic [of 1000 "1 / 20" "1 / 50" "1 / 2"] by simp
  obtain rs where rs: "stress_test_bond 1000 (1 / 20) (1 / 20) (1 / 2) (PyInt 1) = Inr rs"
    using stress_returns_valid [of 1000 "1 / 20" "1 / 20" "1 / 2" "PyInt 1"]
    by (auto simp: base price_half_year_base)
  have l: "length rs = 9" using stress_nth(1) [OF rs base, of 0] by simp
  have y: "shocked_yield (1 / 20) (- 50) = 9 / 200" "shocked_yield (1 / 20) (- 300) = 1 / 50"
    by (simp_all add: shocked_yield_def)
  have "stress_scenario_of 1000 (1 / 20) (1 / 20) (1 / 2) (PyInt 1)
          (periodic_result 1000 (1 / 20) (1 / 20) (Suc 0)) (shocks ! 3) = Inr (rs ! 3)"
    using rs base by (rule stress_nth(2)) simp
  then have p3: "val (scenario_price (rs ! 3)) = 1002445 / 1000"
    by (auto simp: stress_scenario_of_Inr shocks_nth y sp3 price_half_year_minus_50)
  have "stress_scenario_of 1000 (1 / 20) (1 / 20) (1 / 2) (PyInt 1)
          (periodic_result 1000 (1 / 20) (1 / 20) (Suc 0)) (shocks ! 0) = Inr (rs ! 0)"
    using rs base by (rule stress_nth(2)) simp
  then have p0: "val (scenario_price (rs ! 0)) = 10148515 / 10000"
    by (auto simp: stress_scenario_of_Inr shocks_nth y sp0 price_half_year_minus_300)
  have l3: "3 < length rs" and l0: "0 < length rs" using l by simp_all
  note c3 = stress_pnl_from_rounded_prices [OF rs base l3]
  note c0 = stress_pnl_from_rounded_prices [OF rs base l0]
  have d3: "val (pnl_per_bond (rs ! 3)) = 2445 / 1000"
    using c3 by (simp add: p3 price_half_year_base)
  have t3: "is_round (total_pnl (rs ! 3)) (2445 / 1000) 2"
    using c3 by (simp add: p3 price_half_year_base)
  have q0: "is_round (pnl_pct (rs ! 0)) (148515 / 100000) 4"
    using c0 by (simp add: p0 price_half_year_base)
  have "rounds_to (total_pnl (rs ! 3)) (245 / 100)" "rounds_to (total_pnl (rs ! 3)) (244 / 100)"
    by (simp_all add: is_round_rounds_to [OF t3])
  moreover have "rounds_to (pnl_pct (rs ! 0)) (14851 / 10000)"
    "rounds_to (pnl_pct (rs ! 0)) (14852 / 10000)"
    by (simp_all add: is_round_rounds_to [OF q0])
  ultimately show ?thesis
    using rs base l3 p3 d3 t3 p0 q0 by (intro exI [of _ rs]) simp
qed

text \<open>
  C6, as amended. For a periodic bond with \<open>face_value > 0\<close> and
  \<open>coupon_rate \<ge> 0\<close> and two scenarios of a returned report, the first repriced at a
  strictly smaller shocked yield than the second: the price of the first is at least the
  price of the second, and before the rounding to 4 decimal places it is strictly greater.
  The reported prices are the rounded ones, and two of them can be equal: for a face value
  of 0.01 the scenarios of the shocks -50 and 0 both have the price 0.01.
\<close>

theorem stress_price_monotone:
  assumes "0 < fv" "0 \<le> c" "1 \<le> \<lfloor>m * 2\<rfloor>"
    and "stress_test_bond fv c y m q = Inr rs" "i < 9" "j < 9"
    and "shocked_yield y (shocks ! i) < shocked_yield y (shocks ! j)"
  shows "val (scenario_price (rs ! j)) \<le> val (scenario_price (rs ! i)) \<and>
         scenario_price (rs ! i) =
           NpFloat (py_round (dcf_price fv c (shocked_yield y (shocks ! i)) (nat \<lfloor>m * 2\<rfloor>)) 4) \<and>
         scenario_price (rs ! j) =
           NpFloat (py_round (dcf_price fv c (shocked_yield y (shocks ! j)) (nat \<lfloor>m * 2\<rfloor>)) 4) \<and>
         dcf_price fv c (shocked_yield y (shocks ! j)) (nat \<lfloor>m * 2\<rfloor>) <
           dcf_price fv c (shocked_yield y (shocks ! i)) (nat \<lfloor>m * 2\<rfloor>)"
proof -
  obtain base where base: "price_bond fv c y m = Inr base"
    using assms(4) by (auto simp: stress_test_bond_Inr)
  have pb: "price_bond fv c (shocked_yield y sh) m =
            Inr (periodic_result fv c (shocked_yield y sh) (nat \<lfloor>m * 2\<rfloor>))" for sh
    using assms(1-3) shocked_yield_floor [of y sh] by (intro price_bond_valid_periodic) simp_all
  have sc: "scenario_price (rs ! k) =
            NpFloat (py_round (dcf_price fv c (shocked_yield y (shocks ! k)) (nat \<lfloor>m * 2\<rfloor>)) 4)"
    if "k < 9" for k
  proof -
    have "stress_scenario_of fv c y m q base (shocks ! k) = Inr (rs ! k)"
      using assms(4) base that by (rule stress_nth(2))
    then show ?thesis
      by (auto simp: stress_scenario_of_Inr pb periodic_result_def Let_def)
  qed
  have n: "1 \<le> nat \<lfloor>m * 2\<rfloor>" using assms(3) by linarith
  have y: "0 < 1 + shocked_yield y (shocks ! i) / 2"
    using shocked_yield_floor [of y "shocks ! i"] by simp
  have lt: "dcf_price fv c (shocked_yield y (shocks ! j)) (nat \<lfloor>m * 2\<rfloor>) <
            dcf_price fv c (shocked_yield y (shocks ! i)) (nat \<lfloor>m * 2\<rfloor>)"
    using assms(1,2) y assms(7) n by (rule dcf_price_strict_antimono)
  then have "py_round (dcf_price fv c (shocked_yield y (shocks ! j)) (nat \<lfloor>m * 2\<rfloor>)) 4 \<le>
             py_round (dcf_price fv c (shocked_yield y (shocks ! i)) (nat \<lfloor>m * 2\<rfloor>)) 4"
    by (intro py_round_mono) simp
  then show ?thesis
    using lt by (simp add: sc [OF assms(5)] sc [OF assms(6)])
qed

theorem stress_price_monotone_witness:
  "(0::real) < 1000 \<and> (0::real) \<le> 1 / 20 \<and> 1 \<le> \<lfloor>(1::real) * 2\<rfloor> \<and> (3::nat) < 9 \<and> (4::nat) < 9 \<and>
   shocked_yield (1 / 20) (shocks ! 3) < shocked_yield (1 / 20) (shocks ! 4) \<and>
   (\<exists>rs. stress_test_bond 1000 (1 / 20) (1 / 20) 1 (PyInt 1) = Inr rs \<and>
      val (scenario_price (rs ! 4)) \<le> val (scenario_price (rs ! 3)) \<and>
      dcf_price 1000 (1 / 20) (1 / 20) 2 < dcf_price 1000 (1 / 20) (9 / 200) 2)"
proof -
  obtain rs where rs: "stress_test_bond 1000 (1 / 20) (1 / 20) 1 (PyInt 1) = Inr rs"
    using stress_example by blast
  have y: "shocked_yield (1 / 20) (shocks ! 3) = 9 / 200"
    "shocked_yield (1 / 20) (shocks ! 4) = 1 / 20"
    by (simp_all add: shocked_yield_def shocks_nth)
  have a: "(0::real) < 1000" "(0::real) \<le> 1 / 20" "1 \<le> \<lfloor>(1::real) * 2\<rfloor>" "(3::nat) < 9" "(4::nat) < 9"
    "shocked_yield (1 / 20) (shocks ! 3) < shocked_yield (1 / 20) (shocks ! 4)"
    by (simp_all add: y)
  note t = stress_price_monotone [OF a(1-3) rs a(4-6)]
  have c1: "val (scenario_price (rs ! 4)) \<le> val (scenario_price (rs ! 3))"
    using t by blast
  have "dcf_price 1000 (1 / 20) (shocked_yield (1 / 20) (shocks ! 4)) (nat \<lfloor>(1::real) * 2\<rfloor>) <
        dcf_price 1000 (1 / 20) (shocked_yield (1 / 20) (shocks ! 3)) (nat \<lfloor>(1::real) * 2\<rfloor>)"
    using t by blast
  then have c2: "dcf_price 1000 (1 / 20) (1 / 20) 2 < dcf_price 1000 (1 / 20) (9 / 200) 2"
    by (simp add: y)
  show ?thesis
    using a rs c1 c2 by (intro conjI exI [of _ rs]) simp_all
qed

lemma dcf_price_Suc_0: "dcf_price fv c y (Suc 0) = (fv * c / 2 + fv) / (1 + y / 2)"
  using dcf_price_one [of fv c y] by simp

lemma price_small_base: "price (periodic_result (1 / 100) (1 / 20) (1 / 20) (Suc 0)) = NpFloat (1 / 100)"
  using py_round_of_int [of 100 4] by (simp add: periodic_result_def Let_def dcf_price_Suc_0)

lemma price_small_shocked:
  "price (periodic_result (1 / 100) (1 / 20) (9 / 200) (Suc 0)) = NpFloat (1 / 100)"
proof -
  have "py_round (41 / 4090) 4 = 100 / 10 ^ 4"
    using py_round_eqI [of 100 "41 / 4090" 4] by simp
  then show ?thesis
    by (simp add: periodic_result_def Let_def dcf_price_Suc_0)
qed

theorem stress_price_monotone_counterexample:
  "map_sum id
     (\<lambda>rs. (val (shocked_ytm (rs ! 3)), val (shocked_ytm (rs ! 4)),
            val (scenario_price (rs ! 3)), val (scenario_price (rs ! 4))))
     (stress_test_bond (1 / 100) (1 / 20) (1 / 20) (1 / 2) (PyInt 1)) =
   Inr (9 / 2, 5, 1 / 100, 1 / 100)"
proof -
  have base: "price_bond (1 / 100) (1 / 20) (1 / 20) (1 / 2) =
              Inr (periodic_result (1 / 100) (1 / 20) (1 / 20) (Suc 0))"
    using price_bond_valid_periodic [of "1 / 100" "1 / 20" "1 / 20" "1 / 2"] by simp
  have sp: "price_bond (1 / 100) (1 / 20) (9 / 200) (1 / 2) =
            Inr (periodic_result (1 / 100) (1 / 20) (9 / 200) (Suc 0))"
    using price_bond_valid_periodic [of "1 / 100" "1 / 20" "9 / 200" "1 / 2"] by simp
  obtain rs where rs: "stress_test_bond (1 / 100) (1 / 20) (1 / 20) (1 / 2) (PyInt 1) = Inr rs"
    using stress_returns_valid [of "1 / 100" "1 / 20" "1 / 20" "1 / 2" "PyInt 1"]
    by (auto simp: base price_small_base)
  have y: "shocked_yield (1 / 20) (- 50) = 9 / 200" "shocked_yield (1 / 20) 0 = 1 / 20"
    by (simp_all add: shocked_yield_def)
  have "stress_scenario_of (1 / 100) (1 / 20) (1 / 20) (1 / 2) (PyInt 1)
          (periodic_result (1 / 100) (1 / 20) (1 / 20) (Suc 0)) (shocks ! 3) = Inr (rs ! 3)"
    using rs base by (rule stress_nth(2)) simp
  then have s3: "val (shocked_ytm (rs ! 3)) = 9 / 2 \<and> val (scenario_price (rs ! 3)) = 1 / 100"
    using py_round_of_int [of 45000 4]
    by (auto simp: stress_scenario_of_Inr shocks_nth y sp price_small_shocked)
  have "stress_scenario_of (1 / 100) (1 / 20) (1 / 20) (1 / 2) (PyInt 1)
          (periodic_result (1 / 100) (1 / 20) (1 / 20) (Suc 0)) (shocks ! 4) = Inr (rs ! 4)"
    using rs base by (rule stress_nth(2)) simp
  then have s4: "val (shocked_ytm (rs ! 4)) = 5 \<and> val (scenario_price (rs ! 4)) = 1 / 100"
    using py_round_of_int [of 50000 4]
    by (auto simp: stress_scenario_of_Inr shocks_nth y base price_small_base)
  show ?thesis
    using s3 s4 by (simp add: rs)
qed

lemma price_bond_negative_periods:
  "py_int (m * 2) < 0 \<Longrightarrow> price_bond fv c y m = Inl ValueError"
  by (simp add: price_bond_def np_full_def bind_res_def Let_def)

lemma price_bond_zero_periods:
  assumes "py_int (m * 2) = 0"
  shows "price_bond fv c y m =
         (if y < - 1 \<and> m \<noteq> 0 then Inl TypeError
          else if y = - 1 \<or> fv = 0 then Inl ZeroDivisionError
          else Inr (discount_result fv c y m))"
proof -
  have m: "- 1 / 2 < m" "m < 1 / 2" using assms by (simp_all add: py_int_zero_iff)
  have fl: "m = of_int \<lfloor>m\<rfloor> \<longleftrightarrow> m = 0"
  proof
    assume e: "m = of_int \<lfloor>m\<rfloor>"
    have lo: "- 1 \<le> \<lfloor>m\<rfloor>" using m(1) by (simp add: le_floor_iff)
    have hi: "\<lfloor>m\<rfloor> < 1" using m(2) by (simp add: floor_less_iff)
    have "\<lfloor>m\<rfloor> \<noteq> - 1"
    proof
      assume "\<lfloor>m\<rfloor> = - 1"
      with e have "m = - 1" by simp
      with m(1) show False by simp
    qed
    with lo hi have "\<lfloor>m\<rfloor> = 0" by linarith
    with e show "m = 0" by simp
  qed simp
  show ?thesis
    using assms fl
    by (auto simp: price_bond_def py_pow_def py_div_def bind_res_def discount_result_def Let_def
        algebra_simps)
qed

lemma dcf_price_zero_face: "dcf_price 0 c y n = 0"
  by (simp add: dcf_price_def present_value_def cash_flow_def)

lemma price_bond_periodic_nonfinite:
  assumes n: "py_int (m * 2) = int n" "1 \<le> n"
    and bad: "y = - 2 \<or> dcf_price fv c y n = 0"
  shows "price_bond fv c y m = Inl NonFinite"
proof (cases "1 + y / 2 = 0")
  case True
  have n0: "int n \<noteq> 0" using n by simp
  have "(0::real) \<in> set (map (\<lambda>i. (0::real) ^ nat i) (map int [1..<Suc n]))"
    using n(2) by (auto simp: image_iff intro!: bexI [of _ 1])
  then have "np_div_arr xs (map (\<lambda>i. (1 + y / 2) ^ nat i) (map int [1..<Suc n])) = Inl NonFinite"
    for xs
    unfolding np_div_arr_def True by (simp only: if_True)
  then show ?thesis
    unfolding price_bond_def Let_def n np_arange_nat
    by (simp only: n0 if_False cash_flows_run [OF n(2)]) (simp add: bind_res_def)
next
  case False
  then have "dcf_price fv c y n = 0" using bad by auto
  then have z: "sum_list (map (present_value fv c y n) [Suc 0..<Suc n]) = 0"
    by (simp add: dcf_price_def sum_list_periods del: upt_Suc)
  have n0: "int n \<noteq> 0" using n by simp
  show ?thesis
    unfolding price_bond_def Let_def n np_arange_nat
    apply (simp only: n0 if_False cash_flows_run [OF n(2)] np_div_arr_run [OF False])
    apply (simp add: bind_res_def np_div_def z del: upt_Suc)
    done
qed

section \<open>Failures of price-bond\<close>

text \<open>
  C5, as amended. \<open>price_bond\<close> checks none of its inputs and has no validation error.
  It ends without a finite result in exactly these cases: the \<^verbatim>\<open>ValueError\<close> of
  \<^verbatim>\<open>np.full\<close> when \<^verbatim>\<open>int(maturity_years * 2)\<close> is negative; in the branch of no
  whole period, \<^verbatim>\<open>TypeError\<close> when \<open>ytm < -1\<close> and \<open>maturity_years \<noteq> 0\<close>, and
  \<^verbatim>\<open>ZeroDivisionError\<close> when \<open>ytm = -1\<close>, or \<open>face_value = 0\<close> otherwise; in the
  periodic branch no exception, but inf or nan in the result when \<open>ytm = -2\<close> or the
  discounted cash flows sum to 0. On every other input it returns a result: so it does for
  a face value of -1000, with the price -1000.
\<close>

theorem price_bond_faults:
  "price_bond fv c y m = Inl e \<longleftrightarrow>
     (e = ValueError \<and> py_int (m * 2) < 0) \<or>
     (e = TypeError \<and> py_int (m * 2) = 0 \<and> y < - 1 \<and> m \<noteq> 0) \<or>
     (e = ZeroDivisionError \<and> py_int (m * 2) = 0 \<and> (y = - 1 \<or> fv = 0 \<and> (- 1 < y \<or> m = 0))) \<or>
     (e = NonFinite \<and> 0 < py_int (m * 2) \<and>
        (y = - 2 \<or> dcf_price fv c y (nat (py_int (m * 2))) = 0))"
proof -
  consider "py_int (m * 2) < 0" | "py_int (m * 2) = 0" | "0 < py_int (m * 2)" by linarith
  then show ?thesis
  proof cases
    case 1
    then show ?thesis by (auto simp: price_bond_negative_periods)
  next
    case 2
    then show ?thesis by (auto simp: price_bond_zero_periods)
  next
    case 3
    then have n: "py_int (m * 2) = int (nat (py_int (m * 2)))" "1 \<le> nat (py_int (m * 2))"
      by simp_all
    show ?thesis
    proof (cases "y = - 2 \<or> dcf_price fv c y (nat (py_int (m * 2))) = 0")
      case True
      then show ?thesis
        using 3 price_bond_periodic_nonfinite [OF n True] by auto
    next
      case False
      then have "fv \<noteq> 0" using dcf_price_zero_face by auto
      then have "price_bond fv c y m = Inr (periodic_result fv c y (nat (py_int (m * 2))))"
        using False by (intro price_bond_periodic [OF n]) auto
      then show ?thesis using False 3 by auto
    qed
  qed
qed

theorem price_bond_faults_witness:
  "price_bond 1000 0 (- 1) (1 / 4) = Inl ZeroDivisionError \<and>
   price_bond 1000 0 (- 2) (1 / 4) = Inl TypeError \<and>
   price_bond 1000 0 0 (- 1) = Inl ValueError \<and>
   price_bond (- 1000) (- 1 / 20) (1 / 20) 0 \<noteq> Inl ZeroDivisionError"
  using price_bond_faults [of 1000 0 "- 1" "1 / 4" ZeroDivisionError]
    price_bond_faults [of 1000 0 "- 2" "1 / 4" TypeError]
    price_bond_faults [of 1000 0 0 "- 1" ValueError]
    price_bond_faults [of "- 1000" "- 1 / 20" "1 / 20" 0 ZeroDivisionError]
  by (simp add: py_int_def)

theorem price_bond_negative_face_counterexample:
  "price_bond (- 1000) (1 / 20) (1 / 20) 1 = Inr (periodic_result (- 1000) (1 / 20) (1 / 20) 2) \<and>
   price (periodic_result (- 1000) (1 / 20) (1 / 20) 2) = NpFloat (- 1000)"
proof -
  have d: "dcf_price (- 1000) (1 / 20) (1 / 20) 2 = - 1000"
    by (simp add: dcf_price_two power2_eq_square)
  have "price_bond (- 1000) (1 / 20) (1 / 20) 1 = Inr (periodic_result (- 1000) (1 / 20) (1 / 20) 2)"
    by (rule price_bond_periodic) (simp_all add: d py_int_def)
  moreover have "price (periodic_result (- 1000) (1 / 20) (1 / 20) 2) = NpFloat (- 1000)"
    using py_round_of_int [of "- 10000000" 4] by (simp add: periodic_result_def Let_def d)
  ultimately show ?thesis by simp
qed

text \<open>
  C9. For \<open>0 < maturity_years < 0.5\<close>, two calls of \<open>price_bond\<close> that differ only in
  the coupon rate have the same outcome up to the field \<open>coupon_pct\<close>; for
  \<open>face_value > 0\<close> and \<open>ytm > -1\<close> both return, and agree on the price, both
  durations, the convexity, the DV01, the current yield, the price to face and the yield.
\<close>

theorem price_bond_discount_coupon_independent:
  assumes "0 < m" "m < 1 / 2"
  shows "map_sum id (\<lambda>r. r\<lparr>coupon_pct := PyFloat 0\<rparr>) (price_bond fv c1 y m) =
         map_sum id (\<lambda>r. r\<lparr>coupon_pct := PyFloat 0\<rparr>) (price_bond fv c2 y m) \<and>
         (0 < fv \<and> - 1 < y \<longrightarrow>
            (\<exists>r1 r2. price_bond fv c1 y m = Inr r1 \<and> price_bond fv c2 y m = Inr r2 \<and>
               price r1 = price r2 \<and> macaulay_duration r1 = macaulay_duration r2 \<and>
               modified_duration r1 = modified_duration r2 \<and> convexity r1 = convexity r2 \<and>
               dv01 r1 = dv01 r2 \<and> current_yield r1 = current_yield r2 \<and>
               price_to_face r1 = price_to_face r2 \<and> ytm_pct r1 = ytm_pct r2))"
proof -
  have z: "py_int (m * 2) = 0" using assms by (simp add: py_int_zero_iff)
  have "0 < fv \<and> - 1 < y \<Longrightarrow> price_bond fv c y m = Inr (discount_result fv c y m)" for c
    using assms by (intro price_bond_valid_discount) simp_all
  then show ?thesis
    by (auto simp: price_bond_zero_periods [OF z] discount_result_def Let_def)
qed

theorem price_bond_discount_coupon_independent_witness:
  "(0::real) < 1 / 4 \<and> (1 / 4 :: real) < 1 / 2 \<and> (0::real) < 1000 \<and> (- 1::real) < 0 \<and>
   (\<exists>r1 r2. price_bond 1000 0 0 (1 / 4) = Inr r1 \<and> price_bond 1000 (1 / 20) 0 (1 / 4) = Inr r2 \<and>
      price r1 = price r2 \<and> macaulay_duration r1 = macaulay_duration r2 \<and>
      modified_duration r1 = modified_duration r2 \<and> convexity r1 = convexity r2 \<and>
      dv01 r1 = dv01 r2 \<and> current_yield r1 = current_yield r2 \<and>
      price_to_face r1 = price_to_face r2 \<and> ytm_pct r1 = ytm_pct r2)"
  using price_bond_discount_coupon_independent [of "1 / 4" 1000 0 0 "1 / 20"]
  by simp

section \<open>The ratio to the base price\<close>

lemma price_discount_result:
  "price (discount_result fv c y m) = PyFloat (py_round (fv / (1 + y) powr m) 4)"
  by (simp add: discount_result_def Let_def)

lemma py_round_tiny: "py_round (1 / 100000) 4 = 0"
  by (simp add: py_round_def round_half_even_def Let_def)

text \<open>
  C8. The division by the base price in \<open>pnl_pct\<close> has no guard. A bill of face value
  0.00001, yield 0 and a quarter of a year has the base price 0.0000 after rounding, and
  \<open>stress_test_bond\<close> ends in \<^verbatim>\<open>ZeroDivisionError\<close> at the first scenario.
\<close>

theorem stress_zero_base_price:
  "stress_test_bond (1 / 100000) 0 0 (1 / 4) (PyInt 1) = Inl ZeroDivisionError"
proof -
  have base: "price_bond (1 / 100000) 0 0 (1 / 4) = Inr (discount_result (1 / 100000) 0 0 (1 / 4))"
    by (rule price_bond_valid_discount) simp_all
  have sp: "price_bond (1 / 100000) 0 (shocked_yield 0 (- 300)) (1 / 4) =
            Inr (discount_result (1 / 100000) 0 (shocked_yield 0 (- 300)) (1 / 4))"
    by (rule price_bond_valid_discount) (simp_all add: shocked_yield_def)
  have "stress_scenario_of (1 / 100000) 0 0 (1 / 4) (PyInt 1)
          (discount_result (1 / 100000) 0 0 (1 / 4)) (- 300) = Inl ZeroDivisionError"
    by (simp add: stress_scenario_of_def sp bind_res_def price_discount_result py_round_tiny
        num_div_def py_div_def Let_def num_like_def)
  then show ?thesis
    by (simp add: stress_test_bond_def base shocks_def bind_res_def)
qed

end
